theory Spec2Isabelle
  imports Complex_Main "HOL-Library.Stream"
begin

section \<open>The field model of \<open>generate_field.ipynb\<close>\<close>

text \<open>
  The notebook computes with numpy arrays of IEEE doubles. This development reads every
  number as a real and every arithmetic operation as the exact one, so a length-3 array is a
  triple of reals and \<open>np.sqrt\<close>, \<open>np.tanh\<close>, \<open>np.cos\<close>, \<open>np.sin\<close> are the real functions.
  Rounding, overflow, infinities and NaN are outside the model. What holds of the reals but
  not of the rounded operations is therefore not asserted below: the real \<open>tanh\<close> stays
  strictly inside \<open>(-1, 1)\<close> while \<open>np.tanh\<close> returns exactly 1.0 or -1.0 from about
  \<open>|x| = 19.06\<close> on, and the real field is exactly linear in the dipole magnitudes while
  the rounded one is linear only up to rounding.
\<close>

type_synonym vec3 = "real \<times> real \<times> real"

text \<open>numpy's elementwise arithmetic on arrays of shape (3,), with scalar broadcasting.\<close>

fun vadd :: "vec3 \<Rightarrow> vec3 \<Rightarrow> vec3" where
  "vadd (x1, y1, z1) (x2, y2, z2) = (x1 + x2, y1 + y2, z1 + z2)"

fun vsub :: "vec3 \<Rightarrow> vec3 \<Rightarrow> vec3" where
  "vsub (x1, y1, z1) (x2, y2, z2) = (x1 - x2, y1 - y2, z1 - z2)"

fun smul :: "real \<Rightarrow> vec3 \<Rightarrow> vec3" where
  "smul c (x, y, z) = (c * x, c * y, c * z)"

fun vmuls :: "vec3 \<Rightarrow> real \<Rightarrow> vec3" where
  "vmuls (x, y, z) c = (x * c, y * c, z * c)"

fun vdivs :: "vec3 \<Rightarrow> real \<Rightarrow> vec3" where
  "vdivs (x, y, z) c = (x / c, y / c, z / c)"

fun vtanh :: "vec3 \<Rightarrow> vec3" where
  "vtanh (x, y, z) = (tanh x, tanh y, tanh z)"

text \<open>\<open>np.dot\<close> on two arrays of shape (3,).\<close>

fun dot :: "vec3 \<Rightarrow> vec3 \<Rightarrow> real" where
  "dot (x1, y1, z1) (x2, y2, z2) = x1 * x2 + y1 * y2 + z1 * z2"

text \<open>\<open>mag(x)\<close>: \<open>np.sqrt(np.dot(x,x))\<close>.\<close>

definition mag :: "vec3 \<Rightarrow> real" where
  "mag x = sqrt (dot x x)"

text \<open>\<open>mu0 = 10**-7\<close>\<close>

definition mu0 :: real where
  "mu0 = 10 powi (- 7)"

text \<open>
  \<open>dipole_field(r, r0, m, a)\<close>: the field at \<open>r\<close> of one dipole at \<open>r0\<close> with magnitude
  \<open>m\<close> and axis \<open>a\<close>. The product \<open>3*R*(np.dot(M,R))\<close> is read left to right, the
  quotient after it.
\<close>

definition dipole_field :: "vec3 \<Rightarrow> vec3 \<Rightarrow> real \<Rightarrow> vec3 \<Rightarrow> vec3" where
  "dipole_field r r0 m a =
     (let M = smul m a;
          R = vsub r r0
      in if dot R R = 0 then (0, 0, 0)
         else smul mu0 (vsub (vdivs (vmuls (smul 3 R) (dot M R)) (mag R ^ 5))
                             (vdivs M (mag R ^ 3))))"

text \<open>The pole positions \<open>R1\<close>, \<open>R2\<close>, \<open>R3\<close> and, below, the shared axis \<open>A\<close>.\<close>

definition R1 :: vec3 where
  "R1 = (1, 0, 1)"

definition R2 :: vec3 where
  "R2 = (- cos (pi / 3), sin (pi / 3), 1)"

definition R3 :: vec3 where
  "R3 = (- cos (pi / 3), - sin (pi / 3), 1)"

text \<open>
  \<open>total_field(r, m_array, dipole_axis)\<close>: the sum of the three dipole fields, pole \<open>i\<close>
  with magnitude \<open>m_array[i]\<close>.
\<close>

fun total_field :: "vec3 \<Rightarrow> vec3 \<Rightarrow> vec3 \<Rightarrow> vec3" where
  "total_field r (m_0, m_1, m_2) dipole_axis =
     (let B1 = dipole_field r R1 m_0 dipole_axis;
          B2 = dipole_field r R2 m_1 dipole_axis;
          B3 = dipole_field r R3 m_2 dipole_axis
      in vadd (vadd B1 B2) B3)"

definition A :: vec3 where
  "A = (0, 0, 1)"

text \<open>The magnetometer location \<open>r0\<close>, where every dataset's field is computed.\<close>

definition r0 :: vec3 where
  "r0 = (0, 0, 0)"

text \<open>\<open>m = 1e8\<close>, the scaling factor of the dipole magnitude; \<open>nf = 15\<close>.\<close>

definition m :: real where
  "m = 10 ^ 8"

definition nf :: real where
  "nf = 15"

text \<open>
  The setup cell fixes \<open>v_range = 10\<close> and the later cells \<open>N1 = 128\<close>, \<open>N2 = 1024\<close>,
  \<open>N_val = 256\<close>. The generating functions below take the voltage range and the sample
  counts as arguments \<open>V_max\<close>, \<open>N\<close>, \<open>N_rand\<close>; the notebook is their value at these
  constants.
\<close>

definition v_range :: real where
  "v_range = 10"

definition N1 :: int where
  "N1 = 128"

definition N2 :: int where
  "N2 = 1024"

definition N_val :: int where
  "N_val = 256"

section \<open>The numpy operations of the data generation\<close>

text \<open>
  numpy is not part of the repository; its operations are modelled from their documented
  behaviour, its exceptions as values.
\<close>

datatype error = ValueError | AxisError

fun bind_err :: "error + 'a \<Rightarrow> ('a \<Rightarrow> error + 'b) \<Rightarrow> error + 'b" where
  "bind_err (Inl e) f = Inl e"
| "bind_err (Inr x) f = f x"

text \<open>
  \<open>np.linspace(start, stop, num)\<close>: \<open>num\<close> evenly spaced samples over the closed interval,
  the step being \<open>(stop - start) / (num - 1)\<close>; a single sample is \<open>start\<close>; a negative
  \<open>num\<close> raises ValueError.
\<close>

definition linspace :: "real \<Rightarrow> real \<Rightarrow> int \<Rightarrow> error + real list" where
  "linspace start stop num =
     (if num < 0 then Inl ValueError
      else if num = 1 then Inr [start]
      else Inr (map (\<lambda>i. start + real i * ((stop - start) / real_of_int (num - 1)))
                    [0..<nat num]))"

text \<open>\<open>np.zeros(n)\<close>; a negative dimension raises ValueError.\<close>

definition zeros :: "int \<Rightarrow> error + real list" where
  "zeros n = (if n < 0 then Inl ValueError else Inr (replicate (nat n) 0))"

text \<open>
  \<open>np.stack((a, b, c), axis=1)\<close> on one-dimensional arrays: row \<open>i\<close> is
  \<open>(a[i], b[i], c[i])\<close>; arrays of different shapes raise ValueError.
\<close>

definition stack_axis1 :: "real list \<Rightarrow> real list \<Rightarrow> real list \<Rightarrow> error + vec3 list" where
  "stack_axis1 a b c =
     (if length a = length b \<and> length b = length c then Inr (zip a (zip b c))
      else Inl ValueError)"

text \<open>
  \<open>np.concatenate((Bs, Vs), axis=1)\<close> where \<open>Bs\<close> is a Python list of length-3 arrays and
  \<open>Vs\<close> an array of shape (k, 3): the rows are joined side by side. An empty list is a
  one-dimensional array, for which axis 1 is out of bounds (AxisError); different row
  counts raise ValueError.
\<close>

definition concatenate_axis1 :: "vec3 list \<Rightarrow> vec3 list \<Rightarrow> error + (vec3 \<times> vec3) list" where
  "concatenate_axis1 Bs Vs =
     (if Bs = [] then Inl AxisError
      else if length Bs \<noteq> length Vs then Inl ValueError
      else Inr (zip Bs Vs))"

text \<open>
  \<open>np.concatenate((Bs, Bs'))\<close> on two Python lists of length-3 arrays: an empty list is
  one-dimensional and a non-empty one two-dimensional, and arrays of different dimension
  raise ValueError.
\<close>

definition concatenate_lists :: "vec3 list \<Rightarrow> vec3 list \<Rightarrow> error + vec3 list" where
  "concatenate_lists Bs Bs' =
     (if (Bs = []) = (Bs' = []) then Inr (Bs @ Bs') else Inl ValueError)"

text \<open>
  The state of numpy's global random generator is the infinite sequence of draws from
  \<open>[0, 1)\<close> it is going to deliver. \<open>np.random.uniform(low, high, (n, 3))\<close> takes the next
  \<open>3 * n\<close> draws \<open>u\<close>, row by row, as \<open>low + (high - low) * u\<close>, and leaves the generator
  behind them; a negative \<open>n\<close> raises ValueError. For \<open>high < low\<close> numpy documents no
  result; the legacy function evaluates the same expression. The notebook never seeds the
  generator.
\<close>

type_synonym rng = "real stream"

definition random_uniform :: "real \<Rightarrow> real \<Rightarrow> int \<Rightarrow> rng \<Rightarrow> error + (vec3 list \<times> rng)" where
  "random_uniform low high n g =
     (if n < 0 then Inl ValueError
      else Inr (map (\<lambda>i. (low + (high - low) * g !! (3 * i),
                           low + (high - low) * g !! (3 * i + 1),
                           low + (high - low) * g !! (3 * i + 2))) [0..<nat n],
                sdrop (3 * nat n) g))"

section \<open>The voltage sets and the datasets\<close>

text \<open>
  \<open>V1\<close>, \<open>V2\<close>, \<open>V3\<close>: the sweep of \<open>np.linspace(-v_range, v_range, N1)\<close> in the first,
  second and third block of length \<open>N1\<close>, zeros elsewhere. \<open>V_ind\<close> stacks them as columns.
\<close>

definition V1 :: "real \<Rightarrow> int \<Rightarrow> error + real list" where
  "V1 V_max N =
     bind_err (linspace (- V_max) V_max N) (\<lambda>l.
     bind_err (zeros N) (\<lambda>z.
     bind_err (zeros N) (\<lambda>z'. Inr (l @ z @ z'))))"

definition V2 :: "real \<Rightarrow> int \<Rightarrow> error + real list" where
  "V2 V_max N =
     bind_err (zeros N) (\<lambda>z.
     bind_err (linspace (- V_max) V_max N) (\<lambda>l.
     bind_err (zeros N) (\<lambda>z'. Inr (z @ l @ z'))))"

definition V3 :: "real \<Rightarrow> int \<Rightarrow> error + real list" where
  "V3 V_max N =
     bind_err (zeros N) (\<lambda>z.
     bind_err (zeros N) (\<lambda>z'.
     bind_err (linspace (- V_max) V_max N) (\<lambda>l. Inr (z @ z' @ l))))"

definition V_ind :: "real \<Rightarrow> int \<Rightarrow> error + vec3 list" where
  "V_ind V_max N =
     bind_err (V1 V_max N) (\<lambda>v1.
     bind_err (V2 V_max N) (\<lambda>v2.
     bind_err (V3 V_max N) (\<lambda>v3. stack_axis1 v1 v2 v3)))"

text \<open>
  The moment arguments of the two tracks: \<open>V * m\<close> in the linear cell and
  \<open>v_range*np.tanh(V/nf) * m\<close> in the non-linear cells, both elementwise on the voltage
  vector \<open>V\<close>.
\<close>

definition moment_lin :: "vec3 \<Rightarrow> vec3" where
  "moment_lin V = vmuls V m"

definition moment_nl :: "real \<Rightarrow> vec3 \<Rightarrow> vec3" where
  "moment_nl V_max V = vmuls (smul V_max (vtanh (vdivs V nf))) m"

text \<open>The loops \<open>for V in ...: B.append(total_field(r0, ..., A))\<close>.\<close>

definition B_lin :: "vec3 list \<Rightarrow> vec3 list" where
  "B_lin Vs = map (\<lambda>V. total_field r0 (moment_lin V) A) Vs"

definition B_nl :: "real \<Rightarrow> vec3 list \<Rightarrow> vec3 list" where
  "B_nl V_max Vs = map (\<lambda>V. total_field r0 (moment_nl V_max V) A) Vs"

text \<open>
  The four datasets. A row is the field (columns \<open>B_x\<close>, \<open>B_y\<close>, \<open>B_z\<close>) and the voltage
  (columns \<open>V_1\<close>, \<open>V_2\<close>, \<open>V_3\<close>). The two random sets also return the generator they
  leave behind.
\<close>

definition individual_calibration_set :: "real \<Rightarrow> int \<Rightarrow> error + (vec3 \<times> vec3) list" where
  "individual_calibration_set V_max N =
     bind_err (V_ind V_max N) (\<lambda>Vs. concatenate_axis1 (B_lin Vs) Vs)"

definition nl_individual_calibration_set :: "real \<Rightarrow> int \<Rightarrow> error + (vec3 \<times> vec3) list" where
  "nl_individual_calibration_set V_max N =
     bind_err (V_ind V_max N) (\<lambda>Vs. concatenate_axis1 (B_nl V_max Vs) Vs)"

definition full_calibration_set ::
  "real \<Rightarrow> int \<Rightarrow> int \<Rightarrow> rng \<Rightarrow> error + ((vec3 \<times> vec3) list \<times> rng)" where
  "full_calibration_set V_max N N_rand g =
     bind_err (V_ind V_max N) (\<lambda>Vs.
     bind_err (random_uniform (- V_max) V_max N_rand g) (\<lambda>(V_rand, g').
     bind_err (concatenate_lists (B_nl V_max Vs) (B_nl V_max V_rand)) (\<lambda>B_full.
     bind_err (concatenate_axis1 B_full (Vs @ V_rand)) (\<lambda>rows. Inr (rows, g')))))"

definition val_set :: "real \<Rightarrow> int \<Rightarrow> rng \<Rightarrow> error + ((vec3 \<times> vec3) list \<times> rng)" where
  "val_set V_max N_rand g =
     bind_err (random_uniform (- V_max) V_max N_rand g) (\<lambda>(V_val, g').
     bind_err (concatenate_axis1 (B_nl V_max V_val) V_val) (\<lambda>rows. Inr (rows, g')))"

section \<open>Properties of the field model\<close>

lemma mu0_value: "mu0 = 1 / 10 ^ 7"
  by (simp add: mu0_def power_int_minus inverse_eq_divide)

lemma dot_r0_R1: "dot (vsub r0 R1) (vsub r0 R1) = 2"
  by (simp add: r0_def R1_def)

lemma dot_r0_R2: "dot (vsub r0 R2) (vsub r0 R2) = 2"
  by (simp add: r0_def R2_def cos_60 sin_60 power2_eq_square [symmetric] power_divide)

lemma dot_r0_R3: "dot (vsub r0 R3) (vsub r0 R3) = 2"
  by (simp add: r0_def R3_def cos_60 sin_60 power2_eq_square [symmetric] power_divide)

lemma dipole_field_zero_moment: "dipole_field r p 0 a = (0, 0, 0)"
  by (cases r; cases p; cases a) (simp add: dipole_field_def Let_def)

lemma sqrt2_pow3: "sqrt 2 ^ 3 = 2 * sqrt 2"
  by (simp add: power3_eq_cube)

lemma sqrt2_pow5: "sqrt 2 ^ 5 = 4 * sqrt 2"
proof -
  have "sqrt 2 ^ 5 = (sqrt 2)\<^sup>2 * (sqrt 2)\<^sup>2 * sqrt 2"
    by (simp add: power_numeral_reduce power2_eq_square)
  then show ?thesis by simp
qed

lemma total_field_pole1:
  "total_field r0 (c, 0, 0) A = (3 * c / (4 * sqrt 2 * 10 ^ 7), 0, c / (4 * sqrt 2 * 10 ^ 7))"
proof -
  have "dipole_field r0 R1 c A = (3 * c / (4 * sqrt 2 * 10 ^ 7), 0, c / (4 * sqrt 2 * 10 ^ 7))"
    using dot_r0_R1
    apply (simp add: dipole_field_def Let_def mag_def)
    apply (simp add: r0_def R1_def A_def sqrt2_pow3 sqrt2_pow5 mu0_value)
    done
  then show ?thesis
    by (simp add: Let_def dipole_field_zero_moment)
qed

lemma sqrt2_bounds: "14142 / 10000 < sqrt 2" "sqrt 2 < 14143 / 10000"
proof -
  show "14142 / 10000 < sqrt 2"
    by (rule real_less_rsqrt) (simp add: power2_eq_square)
  show "sqrt 2 < 14143 / 10000"
    by (rule real_less_lsqrt) (simp_all add: power2_eq_square)
qed

lemma worked_example_bounds:
  "\<bar>- 75 / sqrt 2 - (- 53033 / 1000)\<bar> < 1 / 100" "\<bar>- 25 / sqrt 2 - (- 17678 / 1000)\<bar> < 1 / 100"
proof -
  have p: "0 < sqrt 2" by simp
  have a: "75 / sqrt 2 < 53043 / 1000"
    using sqrt2_bounds p by (simp add: field_simps)
  have b: "53023 / 1000 < 75 / sqrt 2"
    using sqrt2_bounds p by (simp add: field_simps)
  have e: "- 75 / sqrt 2 = - (75 / sqrt 2)" by simp
  show "\<bar>- 75 / sqrt 2 - (- 53033 / 1000)\<bar> < 1 / 100"
    unfolding e abs_less_iff using a b by linarith
  have c: "25 / sqrt 2 < 17688 / 1000"
    using sqrt2_bounds p by (simp add: field_simps)
  have d: "17668 / 1000 < 25 / sqrt 2"
    using sqrt2_bounds p by (simp add: field_simps)
  have f: "- 25 / sqrt 2 = - (25 / sqrt 2)" by simp
  show "\<bar>- 25 / sqrt 2 - (- 17678 / 1000)\<bar> < 1 / 100"
    unfolding f abs_less_iff using c d by linarith
qed

section \<open>The voltage sweep\<close>

lemma linspace_closed:
  "0 \<le> N \<Longrightarrow> linspace a b N =
     Inr (map (\<lambda>i. a + real i * ((b - a) / real_of_int (N - 1))) [0..<nat N])"
  by (simp add: linspace_def)

lemma zip3_blocks:
  assumes "length a1 = n" "length b1 = n" "length c1 = n"
          "length a2 = n" "length b2 = n" "length c2 = n"
  shows "zip (a1 @ a2 @ a3) (zip (b1 @ b2 @ b3) (c1 @ c2 @ c3)) =
         zip a1 (zip b1 c1) @ zip a2 (zip b2 c2) @ zip a3 (zip b3 c3)"
  using assms by simp

lemma zip_sweep_1: "zip (map f [0..<n]) (zip (replicate n (0::real)) (replicate n (0::real))) = map (\<lambda>i. (f i, 0, 0)) [0..<n]"
  by (rule nth_equalityI) simp_all

lemma zip_sweep_2: "zip (replicate n (0::real)) (zip (map f [0..<n]) (replicate n (0::real))) = map (\<lambda>i. (0, f i, 0)) [0..<n]"
  by (rule nth_equalityI) simp_all

lemma zip_sweep_3: "zip (replicate n (0::real)) (zip (replicate n (0::real)) (map f [0..<n])) = map (\<lambda>i. (0, 0, f i)) [0..<n]"
  by (rule nth_equalityI) simp_all

lemma V_ind_closed:
  assumes "0 \<le> N"
  shows "V_ind V N =
     Inr (map (\<lambda>i. (- V + real i * ((V - (- V)) / real_of_int (N - 1)), 0, 0)) [0..<nat N] @
          map (\<lambda>i. (0, - V + real i * ((V - (- V)) / real_of_int (N - 1)), 0)) [0..<nat N] @
          map (\<lambda>i. (0, 0, - V + real i * ((V - (- V)) / real_of_int (N - 1)))) [0..<nat N])"
proof -
  let ?f = "\<lambda>i. - V + real i * ((V - (- V)) / real_of_int (N - 1))"
  let ?l = "map ?f [0..<nat N]" and ?z = "replicate (nat N) (0::real)"
  have l: "linspace (- V) V N = Inr ?l"
    using assms by (rule linspace_closed)
  have z: "zeros N = Inr ?z"
    using assms by (simp add: zeros_def)
  have v1: "V1 V N = Inr (?l @ ?z @ ?z)" by (simp add: V1_def l z)
  have v2: "V2 V N = Inr (?z @ ?l @ ?z)" by (simp add: V2_def l z)
  have v3: "V3 V N = Inr (?z @ ?z @ ?l)" by (simp add: V3_def l z)
  have "V_ind V N = Inr (zip (?l @ ?z @ ?z) (zip (?z @ ?l @ ?z) (?z @ ?z @ ?l)))"
    by (simp add: V_ind_def v1 v2 v3 stack_axis1_def)
  also have "zip (?l @ ?z @ ?z) (zip (?z @ ?l @ ?z) (?z @ ?z @ ?l)) =
      zip ?l (zip ?z ?z) @ zip ?z (zip ?l ?z) @ zip ?z (zip ?z ?l)"
    by (rule zip3_blocks [where n = "nat N"]) simp_all
  finally show ?thesis
    by (simp only: zip_sweep_1 zip_sweep_2 zip_sweep_3)
qed

lemma V_ind_negative: "N < 0 \<Longrightarrow> V_ind V N = Inl ValueError"
  by (simp add: V_ind_def V1_def linspace_def)

lemma V_ind_length: "V_ind V N = Inr Vs \<Longrightarrow> length Vs = 3 * nat N"
  by (cases "0 \<le> N") (auto simp: V_ind_closed V_ind_negative)

lemma dataset_rows:
  "V_ind V N = Inr Vs \<Longrightarrow> Vs \<noteq> [] \<Longrightarrow>
     individual_calibration_set V N = Inr (zip (B_lin Vs) Vs) \<and>
     nl_individual_calibration_set V N = Inr (zip (B_nl V Vs) Vs)"
  by (simp add: individual_calibration_set_def nl_individual_calibration_set_def
      concatenate_axis1_def B_lin_def B_nl_def)

lemma V_ind_first:
  assumes "1 \<le> N"
  shows "\<exists>Vs. V_ind V N = Inr Vs \<and> Vs \<noteq> [] \<and> Vs ! 0 = (- V, 0, 0)"
proof -
  have "0 < nat N" using assms by simp
  then show ?thesis
    using V_ind_closed [of N V] assms by (simp add: nth_append upt_conv_Cons)
qed

section \<open>The datasets\<close>

lemma bind_err_Inr:
  "bind_err x f = Inr y \<longleftrightarrow> (\<exists>a. x = Inr a \<and> f a = Inr y)"
  by (cases x) auto

lemma concatenate_axis1_Inr:
  "concatenate_axis1 Bs Vs = Inr rows \<Longrightarrow> rows = zip Bs Vs \<and> length Bs = length Vs \<and> Bs \<noteq> []"
  by (auto simp: concatenate_axis1_def split: if_splits)

lemma concatenate_lists_Inr:
  "concatenate_lists Bs Bs' = Inr B_full \<Longrightarrow> B_full = Bs @ Bs'"
  by (auto simp: concatenate_lists_def split: if_splits)

lemma in_zip_map: "(B, U) \<in> set (zip (map f Vs) Vs) \<Longrightarrow> B = f U"
  by (induction Vs) auto

lemma individual_rows_Inr:
  assumes "individual_calibration_set V N = Inr rows"
  shows "\<exists>Vs. V_ind V N = Inr Vs \<and> rows = zip (B_lin Vs) Vs"
  using assms
  by (auto simp: individual_calibration_set_def bind_err_Inr dest: concatenate_axis1_Inr)

lemma nl_individual_rows_Inr:
  assumes "nl_individual_calibration_set V N = Inr rows"
  shows "\<exists>Vs. V_ind V N = Inr Vs \<and> rows = zip (B_nl V Vs) Vs"
  using assms
  by (auto simp: nl_individual_calibration_set_def bind_err_Inr dest: concatenate_axis1_Inr)

lemma full_rows_Inr:
  assumes "full_calibration_set V N N_rand g = Inr (rows, g')"
  shows "\<exists>Vs V_rand. V_ind V N = Inr Vs \<and>
           random_uniform (- V) V N_rand g = Inr (V_rand, g') \<and>
           rows = zip (B_nl V (Vs @ V_rand)) (Vs @ V_rand)"
proof -
  from assms obtain Vs V_rand g1 B_full rws where
    1: "V_ind V N = Inr Vs" and
    2: "random_uniform (- V) V N_rand g = Inr (V_rand, g1)" and
    3: "concatenate_lists (B_nl V Vs) (B_nl V V_rand) = Inr B_full" and
    4: "concatenate_axis1 B_full (Vs @ V_rand) = Inr rws" and
    5: "rws = rows" "g1 = g'"
    by (auto simp: full_calibration_set_def bind_err_Inr)
  have "B_full = B_nl V (Vs @ V_rand)"
    using concatenate_lists_Inr [OF 3] by (simp add: B_nl_def)
  with 1 2 4 5 show ?thesis
    by (auto dest: concatenate_axis1_Inr)
qed

lemma val_rows_Inr:
  assumes "val_set V N_rand g = Inr (rows, g')"
  shows "\<exists>V_val. random_uniform (- V) V N_rand g = Inr (V_val, g') \<and>
           rows = zip (B_nl V V_val) V_val"
  using assms
  by (auto simp: val_set_def bind_err_Inr dest: concatenate_axis1_Inr)

lemma moment_lin_coords: "moment_lin (v1, v2, v3) = (v1 * 10 ^ 8, v2 * 10 ^ 8, v3 * 10 ^ 8)"
  by (simp add: moment_lin_def m_def)

lemma moment_nl_coords:
  "moment_nl V (v1, v2, v3) =
     (V * tanh (v1 / 15) * 10 ^ 8, V * tanh (v2 / 15) * 10 ^ 8, V * tanh (v3 / 15) * 10 ^ 8)"
  by (simp add: moment_nl_def m_def nf_def)

lemma random_uniform_Inr:
  "0 \<le> n \<Longrightarrow> \<exists>Vr. random_uniform lo hi n g = Inr (Vr, sdrop (3 * nat n) g) \<and> length Vr = nat n"
  by (simp add: random_uniform_def)

lemma random_uniform_negative: "n < 0 \<Longrightarrow> random_uniform lo hi n g = Inl ValueError"
  by (simp add: random_uniform_def)

lemma V_ind_Inr:
  "0 \<le> N \<Longrightarrow> \<exists>Vs. V_ind V N = Inr Vs \<and> length Vs = 3 * nat N"
  using V_ind_closed [of N V] by simp

lemma individual_ok:
  assumes "0 < N"
  shows "\<exists>rows. individual_calibration_set V N = Inr rows \<and> length rows = 3 * nat N"
    and "\<exists>rows. nl_individual_calibration_set V N = Inr rows \<and> length rows = 3 * nat N"
proof -
  obtain Vs where Vs: "V_ind V N = Inr Vs" "length Vs = 3 * nat N"
    using V_ind_Inr [of N V] assms by auto
  then have ne: "Vs \<noteq> []" using assms by auto
  show "\<exists>rows. individual_calibration_set V N = Inr rows \<and> length rows = 3 * nat N"
    using dataset_rows [OF Vs(1) ne] Vs(2) by (simp add: B_lin_def)
  show "\<exists>rows. nl_individual_calibration_set V N = Inr rows \<and> length rows = 3 * nat N"
    using dataset_rows [OF Vs(1) ne] Vs(2) by (simp add: B_nl_def)
qed

lemma full_ok:
  assumes "0 < N" "0 < N_rand"
  shows "\<exists>rows g'. full_calibration_set V N N_rand g = Inr (rows, g') \<and>
           length rows = 3 * nat N + nat N_rand"
proof -
  obtain Vs where Vs: "V_ind V N = Inr Vs" "length Vs = 3 * nat N"
    using V_ind_Inr [of N V] assms by auto
  obtain Vr where Vr: "random_uniform (- V) V N_rand g = Inr (Vr, sdrop (3 * nat N_rand) g)"
      "length Vr = nat N_rand"
    using random_uniform_Inr [of N_rand "- V" V g] assms by auto
  have ne: "Vs \<noteq> []" "Vr \<noteq> []" using assms Vs(2) Vr(2) by auto
  then show ?thesis
    using Vs Vr
    by (simp add: full_calibration_set_def concatenate_lists_def concatenate_axis1_def B_nl_def)
qed

lemma val_ok:
  assumes "0 < N_rand"
  shows "\<exists>rows g'. val_set V N_rand g = Inr (rows, g') \<and> length rows = nat N_rand"
proof -
  obtain Vr where Vr: "random_uniform (- V) V N_rand g = Inr (Vr, sdrop (3 * nat N_rand) g)"
      "length Vr = nat N_rand"
    using random_uniform_Inr [of N_rand "- V" V g] assms by auto
  have ne: "Vr \<noteq> []" using assms Vr(2) by auto
  then show ?thesis
    using Vr by (simp add: val_set_def concatenate_axis1_def B_nl_def)
qed

lemma notebook_datasets:
  "(\<exists>rows. individual_calibration_set v_range N1 = Inr rows \<and> length rows = 384) \<and>
   (\<exists>rows. nl_individual_calibration_set v_range N1 = Inr rows \<and> length rows = 384) \<and>
   (\<exists>rows g'. full_calibration_set v_range N1 N2 g = Inr (rows, g') \<and> length rows = 1408) \<and>
   (\<exists>rows g'. val_set v_range N_val g = Inr (rows, g') \<and> length rows = 256)"
  using individual_ok [of N1 v_range] full_ok [of N1 N2 v_range g] val_ok [of N_val v_range g]
  by (simp add: N1_def N2_def N_val_def)

lemma individual_negative:
  assumes "N < 0"
  shows "individual_calibration_set V N = Inl ValueError"
    and "nl_individual_calibration_set V N = Inl ValueError"
    and "full_calibration_set V N N_rand g = Inl ValueError"
  using V_ind_negative [OF assms, of V]
  by (simp_all add: individual_calibration_set_def nl_individual_calibration_set_def
      full_calibration_set_def)

lemma V_ind_zero: "V_ind V 0 = Inr []"
  using V_ind_closed [of 0 V] by simp

lemma individual_zero:
  "individual_calibration_set V 0 = Inl AxisError"
  "nl_individual_calibration_set V 0 = Inl AxisError"
  by (simp_all add: individual_calibration_set_def nl_individual_calibration_set_def V_ind_zero
      concatenate_axis1_def B_lin_def B_nl_def)

lemma random_nonpositive_fails:
  assumes "N_rand \<le> 0"
  shows "isl (full_calibration_set V N N_rand g)" and "isl (val_set V N_rand g)"
proof -
  have r: "random_uniform (- V) V 0 g = Inr ([], g)"
    by (simp add: random_uniform_def)
  show "isl (val_set V N_rand g)"
  proof (cases "N_rand < 0")
    case True
    then show ?thesis by (simp add: val_set_def random_uniform_negative)
  next
    case False
    with assms have "N_rand = 0" by simp
    then show ?thesis
      by (simp add: val_set_def r concatenate_axis1_def B_nl_def)
  qed
  show "isl (full_calibration_set V N N_rand g)"
  proof (cases "N < 0")
    case True
    then show ?thesis by (simp add: individual_negative)
  next
    case N: False
    then obtain Vs where Vs: "V_ind V N = Inr Vs"
      using V_ind_Inr [of N V] by auto
    show ?thesis
    proof (cases "N_rand < 0")
      case True
      then show ?thesis by (simp add: full_calibration_set_def Vs random_uniform_negative)
    next
      case False
      with assms have "N_rand = 0" by simp
      then show ?thesis
        by (simp add: full_calibration_set_def Vs r concatenate_lists_def concatenate_axis1_def
            B_nl_def)
    qed
  qed
qed

lemma V_ind_single: "V_ind V 1 = Inr [(- V, 0, 0), (0, - V, 0), (0, 0, - V)]"
  using V_ind_closed [of 1 V] by simp

lemma random_uniform_single:
  "random_uniform (- 10) 10 1 (0 ## sconst (1 / 2)) = Inr ([(- 10, 0, 0)], sdrop 3 (0 ## sconst (1 / 2)))"
  by (simp add: random_uniform_def numeral_2_eq_2)

lemma map_sum_bind_err:
  "map_sum id F (bind_err x f) = bind_err x (\<lambda>a. map_sum id F (f a))"
  by (cases x) simp_all

lemma bind_err_return: "bind_err x (\<lambda>r. Inr (F r)) = map_sum id F x"
  by (cases x) simp_all

lemma map_sum_fst_pair: "map_sum id fst (map_sum id (\<lambda>r. (r, a)) x) = x"
  by (cases x) simp_all

lemma random_uniform_draws:
  assumes "stake (3 * nat n) g = stake (3 * nat n) h"
  shows "map_sum id fst (random_uniform lo hi n g) = map_sum id fst (random_uniform lo hi n h)"
proof -
  have eq: "g !! k = h !! k" if "k < 3 * nat n" for k
  proof -
    have "g !! k = stake (3 * nat n) g ! k" using that by simp
    also have "\<dots> = stake (3 * nat n) h ! k" by (simp only: assms)
    also have "\<dots> = h !! k" using that by simp
    finally show ?thesis .
  qed
  have "g !! (3 * i) = h !! (3 * i) \<and> g !! (3 * i + 1) = h !! (3 * i + 1) \<and>
        g !! (3 * i + 2) = h !! (3 * i + 2)" if "i < nat n" for i
    using that by (intro conjI eq) simp_all
  then show ?thesis
    by (simp add: random_uniform_def)
qed

lemma full_rows_of_draws:
  "map_sum id fst (full_calibration_set V N N_rand g) =
     bind_err (V_ind V N) (\<lambda>Vs.
     bind_err (map_sum id fst (random_uniform (- V) V N_rand g)) (\<lambda>V_rand.
     bind_err (concatenate_lists (B_nl V Vs) (B_nl V V_rand)) (\<lambda>B_full.
       concatenate_axis1 B_full (Vs @ V_rand))))"
proof (cases "V_ind V N")
  case (Inl e)
  then show ?thesis by (simp add: full_calibration_set_def)
next
  case (Inr Vs)
  show ?thesis
  proof (cases "N_rand < 0")
    case True
    then show ?thesis by (simp add: full_calibration_set_def Inr random_uniform_def)
  next
    case False
    then show ?thesis
      by (simp add: full_calibration_set_def Inr random_uniform_def map_sum_bind_err
          bind_err_return map_sum_fst_pair)
  qed
qed


lemma val_rows_of_draws:
  "map_sum id fst (val_set V N_rand g) =
     bind_err (map_sum id fst (random_uniform (- V) V N_rand g)) (\<lambda>V_val.
       concatenate_axis1 (B_nl V V_val) V_val)"
proof (cases "N_rand < 0")
  case True
  then show ?thesis by (simp add: val_set_def random_uniform_def)
next
  case False
  then show ?thesis
    by (simp add: val_set_def random_uniform_def map_sum_bind_err bind_err_return
        map_sum_fst_pair)
qed

lemma map_snd_zip_map: "map snd (zip (map f xs) xs) = xs"
  by (induction xs) simp_all

lemma full_sweep_part:
  assumes "full_calibration_set V N N_rand g = Inr (rows, g')"
  shows "V_ind V N = Inr (map snd (take (3 * nat N) rows))"
proof -
  obtain Vs V_rand where Vs: "V_ind V N = Inr Vs"
    and rows: "rows = zip (B_nl V (Vs @ V_rand)) (Vs @ V_rand)"
    using full_rows_Inr [OF assms] by blast
  have "map snd rows = Vs @ V_rand"
    unfolding rows B_nl_def by (rule map_snd_zip_map)
  then have "map snd (take (3 * nat N) rows) = take (3 * nat N) (Vs @ V_rand)"
    by (simp only: take_map [symmetric])
  also have "\<dots> = Vs"
    using V_ind_length [OF Vs] by simp
  finally show ?thesis
    using Vs by simp
qed

lemma full_calibration_set_single:
  "full_calibration_set 10 1 1 (0 ## sconst (1 / 2)) =
      Inr (zip (B_nl 10 [(- 10, 0, 0), (0, - 10, 0), (0, 0, - 10), (- 10, 0, 0)])
               [(- 10, 0, 0), (0, - 10, 0), (0, 0, - 10), (- 10, 0, 0)],
           sdrop 3 (0 ## sconst (1 / 2)))"
  using V_ind_single [of 10]
  by (simp add: full_calibration_set_def random_uniform_single concatenate_lists_def
      concatenate_axis1_def B_nl_def del: total_field.simps)

section \<open>The saturating transform\<close>







section \<open>The claims on the field model\<close>

text \<open>
  C2. Away from the pole (\<open>dot R R \<noteq> 0\<close> for \<open>R = r - r0\<close>) \<open>dipole_field\<close> returns
  \<open>mu0 * (3*R*dot(M,R)/|R|^5 - M/|R|^3)\<close> with \<open>M = c*a\<close> for the magnitude \<open>c\<close> and
  \<open>mu0 = 1e-7\<close>, here written out coordinate by coordinate, \<open>|R|\<close> being the Euclidean
  norm of \<open>R\<close>.
\<close>

theorem dipole_field_formula:
  fixes rx ry rz px py pz c ax ay az :: real
  defines "Rx \<equiv> rx - px" and "Ry \<equiv> ry - py" and "Rz \<equiv> rz - pz"
  defines "Mx \<equiv> c * ax" and "My \<equiv> c * ay" and "Mz \<equiv> c * az"
  defines "d \<equiv> sqrt (Rx\<^sup>2 + Ry\<^sup>2 + Rz\<^sup>2)"
  defines "MR \<equiv> Mx * Rx + My * Ry + Mz * Rz"
  assumes "dot (vsub (rx, ry, rz) (px, py, pz)) (vsub (rx, ry, rz) (px, py, pz)) \<noteq> 0"
  shows "dipole_field (rx, ry, rz) (px, py, pz) c (ax, ay, az) =
           (1 / 10 ^ 7 * (3 * Rx * MR / d ^ 5 - Mx / d ^ 3),
            1 / 10 ^ 7 * (3 * Ry * MR / d ^ 5 - My / d ^ 3),
            1 / 10 ^ 7 * (3 * Rz * MR / d ^ 5 - Mz / d ^ 3))"
  using assms
  by (simp add: dipole_field_def mag_def mu0_value power2_eq_square Let_def)

theorem dipole_field_formula_witness:
  "dot (vsub (0, 0, 1) (0, 0, 0)) (vsub (0, 0, 1) (0, 0, 0)) \<noteq> 0 \<and>
   dipole_field (0, 0, 1) (0, 0, 0) 2 (0, 0, 1) = (0, 0, 4 / 10 ^ 7)"
  using dipole_field_formula [of 0 0 1 0 0 0 2 0 0 1]
  by simp


section \<open>The claims on the voltage sets and the moments\<close>

text \<open>
  C6, as the code has it. For every \<open>N \<ge> 2\<close> the sweep \<open>V_ind\<close> has exactly \<open>3N\<close> rows; row
  \<open>i\<close> of the first block carries \<open>-V_max + i * 2*V_max/(N-1)\<close> in coordinate 0 and zeros in
  coordinates 1 and 2, row \<open>N + i\<close> carries it in coordinate 1, row \<open>2N + i\<close> in coordinate
  2; the values start at \<open>-V_max\<close>, end at \<open>V_max\<close> and, for positive \<open>V_max\<close>, ascend
  strictly. For \<open>N = 1\<close> each block is the single value \<open>-V_max\<close>.
\<close>

theorem V_ind_sweep:
  fixes V :: real and N :: int and i j :: nat
  defines "val \<equiv> \<lambda>k. - V + real k * (2 * V / real_of_int (N - 1))"
  assumes "2 \<le> N" and "i < nat N"
  shows "(\<exists>Vs. V_ind V N = Inr Vs \<and> length Vs = 3 * nat N \<and>
            Vs ! i = (val i, 0, 0) \<and>
            Vs ! (nat N + i) = (0, val i, 0) \<and>
            Vs ! (2 * nat N + i) = (0, 0, val i)) \<and>
         val 0 = - V \<and> val (nat N - 1) = V \<and>
         (0 < V \<and> j < i \<longrightarrow> val j < val i) \<and>
         V_ind V 1 = Inr [(- V, 0, 0), (0, - V, 0), (0, 0, - V)]"
proof (intro conjI)
  let ?n = "nat N"
  have N0: "0 \<le> N" using assms by simp
  have val: "- V + real k * ((V - (- V)) / real_of_int (N - 1)) = val k" for k
    by (simp add: val_def)
  let ?Vs = "map (\<lambda>k. (val k, 0, 0)) [0..<?n] @ map (\<lambda>k. (0, val k, 0)) [0..<?n] @
             map (\<lambda>k. (0, 0, val k)) [0..<?n]"
  have Vs: "V_ind V N = Inr ?Vs"
    using V_ind_closed [OF N0, of V] by (simp only: val)
  have 1: "?Vs ! i = (val i, 0, 0)"
    using \<open>i < nat N\<close> by (simp add: nth_append)
  have 2: "?Vs ! (?n + i) = (0, val i, 0)"
    using \<open>i < nat N\<close> by (simp add: nth_append)
  have 3: "?Vs ! (2 * ?n + i) = (0, 0, val i)"
    using \<open>i < nat N\<close> by (simp add: nth_append)
  show "\<exists>Vs. V_ind V N = Inr Vs \<and> length Vs = 3 * nat N \<and>
            Vs ! i = (val i, 0, 0) \<and>
            Vs ! (nat N + i) = (0, val i, 0) \<and>
            Vs ! (2 * nat N + i) = (0, 0, val i)"
    using Vs 1 2 3 by (intro exI [of _ ?Vs]) simp
  show "val 0 = - V" by (simp add: val_def)
  have "real (nat N - 1) = real_of_int (N - 1)"
    using \<open>2 \<le> N\<close> by simp
  then show "val (nat N - 1) = V"
    using \<open>2 \<le> N\<close> by (simp add: val_def)
  show "0 < V \<and> j < i \<longrightarrow> val j < val i"
  proof
    assume h: "0 < V \<and> j < i"
    have "0 < 2 * V / real_of_int (N - 1)"
      using h \<open>2 \<le> N\<close> by simp
    moreover have "real j < real i"
      using h by simp
    ultimately have "real j * (2 * V / real_of_int (N - 1)) < real i * (2 * V / real_of_int (N - 1))"
      by (rule mult_strict_right_mono [rotated])
    then show "val j < val i" by (simp add: val_def)
  qed
  show "V_ind V 1 = Inr [(- V, 0, 0), (0, - V, 0), (0, 0, - V)]"
    using V_ind_closed [of 1 V] by simp
qed

theorem V_ind_sweep_witness:
  "(2::int) \<le> 2 \<and> (1::nat) < nat 2 \<and>
   (\<exists>Vs. V_ind 10 2 = Inr Vs \<and> length Vs = 6 \<and>
      Vs ! 1 = (10, 0, 0) \<and> Vs ! 3 = (0, 10, 0) \<and> Vs ! 5 = (0, 0, 10)) \<and>
   0 < (10::real) \<and> (0::nat) < 1 \<and> - (10::real) < 10"
  using V_ind_sweep [of 2 1 10 0] by simp

text \<open>
  C6 as stated fails at \<open>N = 1\<close>: the one sample of each block is \<open>-V_max\<close>, and no row
  carries \<open>V_max\<close> itself.
\<close>

theorem single_sample_sweep_omits_V_max:
  "V_ind 10 1 = Inr [(- 10, 0, 0), (0, - 10, 0), (0, 0, - 10)] \<and>
   (10, 0, 0) \<notin> set [(- 10, 0, 0), (0, - 10, 0), (0, 0, - 10) :: vec3] \<and>
   (0, 10, 0) \<notin> set [(- 10, 0, 0), (0, - 10, 0), (0, 0, - 10) :: vec3] \<and>
   (0, 0, 10) \<notin> set [(- 10, 0, 0), (0, - 10, 0), (0, 0, - 10) :: vec3]"
  using V_ind_closed [of 1 10] by simp

text \<open>
  C7. In the linear track at \<open>v_range = 10\<close> and \<open>N1 = 128\<close>, the first row of
  \<open>individual_calibration_set\<close> has the voltage \<open>(-10, 0, 0)\<close> and a field within
  \<open>1e-2\<close> of \<open>(-53.033, 0.0, -17.678)\<close> in every coordinate.
\<close>

theorem worked_example:
  "\<exists>rows Bx By Bz.
     individual_calibration_set v_range N1 = Inr rows \<and>
     rows ! 0 = ((Bx, By, Bz), (- 10, 0, 0)) \<and>
     \<bar>Bx - (- 53033 / 1000)\<bar> < 1 / 100 \<and>
     \<bar>By - 0\<bar> < 1 / 100 \<and>
     \<bar>Bz - (- 17678 / 1000)\<bar> < 1 / 100"
proof -
  obtain Vs where Vs: "V_ind 10 128 = Inr Vs" "Vs \<noteq> []" "Vs ! 0 = (- 10, 0, 0)"
    using V_ind_first [of 128 10] by auto
  have rows: "individual_calibration_set v_range N1 = Inr (zip (B_lin Vs) Vs)"
    using dataset_rows [OF Vs(1,2)] by (simp add: v_range_def N1_def)
  have "B_lin Vs ! 0 = total_field r0 (moment_lin (- 10, 0, 0)) A"
    using Vs(2,3) by (simp add: B_lin_def)
  also have "\<dots> = total_field r0 (- 1000000000, 0, 0) A"
    by (simp add: moment_lin_def m_def del: total_field.simps)
  also have "\<dots> = (- 75 / sqrt 2, 0, - 25 / sqrt 2)"
    by (simp add: total_field_pole1 del: total_field.simps)
  finally have "zip (B_lin Vs) Vs ! 0 = ((- 75 / sqrt 2, 0, - 25 / sqrt 2), (- 10, 0, 0))"
    using Vs(2,3) by (simp add: B_lin_def)
  with rows worked_example_bounds show ?thesis
    by (intro exI [of _ "zip (B_lin Vs) Vs"] exI [of _ "- 75 / sqrt 2"] exI [of _ 0]
        exI [of _ "- 25 / sqrt 2"]) simp
qed

text \<open>
  C5. The linear moment is the voltage times \<open>1e8\<close> in every coordinate, so doubling the
  voltage doubles the moment and the zero voltage has the zero moment.
\<close>

theorem moment_lin_proportional:
  "moment_lin (v1, v2, v3) = (v1 * 10 ^ 8, v2 * 10 ^ 8, v3 * 10 ^ 8) \<and>
   moment_lin (smul 2 (v1, v2, v3)) = smul 2 (moment_lin (v1, v2, v3)) \<and>
   moment_lin (0, 0, 0) = (0, 0, 0)"
  by (simp add: moment_lin_def m_def)




section \<open>The claims on the datasets\<close>

text \<open>
  C1. In each of the four datasets every row's field is \<open>total_field\<close> at the origin, with
  the shared axis \<open>(0, 0, 1)\<close>, of the moment that the dataset's track derives from the
  row's own voltage: the voltage times \<open>1e8\<close> in the linear individual set, and
  \<open>V_max * tanh(voltage / 15) * 1e8\<close> in the non-linear individual, full and validation
  sets.
\<close>

theorem field_sample_invariant:
  "(individual_calibration_set V_max N = Inr rows \<and> (B, (v1, v2, v3)) \<in> set rows \<longrightarrow>
      B = total_field (0, 0, 0) (v1 * 10 ^ 8, v2 * 10 ^ 8, v3 * 10 ^ 8) (0, 0, 1)) \<and>
   (nl_individual_calibration_set V_max N = Inr rows \<and> (B, (v1, v2, v3)) \<in> set rows \<longrightarrow>
      B = total_field (0, 0, 0)
            (V_max * tanh (v1 / 15) * 10 ^ 8, V_max * tanh (v2 / 15) * 10 ^ 8,
             V_max * tanh (v3 / 15) * 10 ^ 8) (0, 0, 1)) \<and>
   (full_calibration_set V_max N N_rand g = Inr (rows, g') \<and> (B, (v1, v2, v3)) \<in> set rows \<longrightarrow>
      B = total_field (0, 0, 0)
            (V_max * tanh (v1 / 15) * 10 ^ 8, V_max * tanh (v2 / 15) * 10 ^ 8,
             V_max * tanh (v3 / 15) * 10 ^ 8) (0, 0, 1)) \<and>
   (val_set V_max N_rand g = Inr (rows, g') \<and> (B, (v1, v2, v3)) \<in> set rows \<longrightarrow>
      B = total_field (0, 0, 0)
            (V_max * tanh (v1 / 15) * 10 ^ 8, V_max * tanh (v2 / 15) * 10 ^ 8,
             V_max * tanh (v3 / 15) * 10 ^ 8) (0, 0, 1))"
proof (intro conjI impI; elim conjE)
  assume "individual_calibration_set V_max N = Inr rows" and mem: "(B, (v1, v2, v3)) \<in> set rows"
  then obtain Vs where "rows = zip (B_lin Vs) Vs"
    using individual_rows_Inr by blast
  with mem have "B = total_field r0 (moment_lin (v1, v2, v3)) A"
    unfolding B_lin_def by (auto dest: in_zip_map)
  then show "B = total_field (0, 0, 0) (v1 * 10 ^ 8, v2 * 10 ^ 8, v3 * 10 ^ 8) (0, 0, 1)"
    by (simp only: moment_lin_coords r0_def A_def)
next
  assume "nl_individual_calibration_set V_max N = Inr rows" and mem: "(B, (v1, v2, v3)) \<in> set rows"
  then obtain Vs where "rows = zip (B_nl V_max Vs) Vs"
    using nl_individual_rows_Inr by blast
  with mem have "B = total_field r0 (moment_nl V_max (v1, v2, v3)) A"
    unfolding B_nl_def by (auto dest: in_zip_map)
  then show "B = total_field (0, 0, 0)
            (V_max * tanh (v1 / 15) * 10 ^ 8, V_max * tanh (v2 / 15) * 10 ^ 8,
             V_max * tanh (v3 / 15) * 10 ^ 8) (0, 0, 1)"
    by (simp only: moment_nl_coords r0_def A_def)
next
  assume "full_calibration_set V_max N N_rand g = Inr (rows, g')" and mem: "(B, (v1, v2, v3)) \<in> set rows"
  then obtain Vs where "rows = zip (B_nl V_max Vs) Vs"
    using full_rows_Inr by blast
  with mem have "B = total_field r0 (moment_nl V_max (v1, v2, v3)) A"
    unfolding B_nl_def by (auto dest: in_zip_map)
  then show "B = total_field (0, 0, 0)
            (V_max * tanh (v1 / 15) * 10 ^ 8, V_max * tanh (v2 / 15) * 10 ^ 8,
             V_max * tanh (v3 / 15) * 10 ^ 8) (0, 0, 1)"
    by (simp only: moment_nl_coords r0_def A_def)
next
  assume "val_set V_max N_rand g = Inr (rows, g')" and mem: "(B, (v1, v2, v3)) \<in> set rows"
  then obtain Vs where "rows = zip (B_nl V_max Vs) Vs"
    using val_rows_Inr by blast
  with mem have "B = total_field r0 (moment_nl V_max (v1, v2, v3)) A"
    unfolding B_nl_def by (auto dest: in_zip_map)
  then show "B = total_field (0, 0, 0)
            (V_max * tanh (v1 / 15) * 10 ^ 8, V_max * tanh (v2 / 15) * 10 ^ 8,
             V_max * tanh (v3 / 15) * 10 ^ 8) (0, 0, 1)"
    by (simp only: moment_nl_coords r0_def A_def)
qed

theorem field_sample_invariant_witness:
  "(\<exists>rows. individual_calibration_set 10 1 = Inr rows \<and>
      ((- 75 / sqrt 2, 0, - 25 / sqrt 2), (- 10, 0, 0)) \<in> set rows) \<and>
   (- 75 / sqrt 2, 0, - 25 / sqrt 2) =
      total_field (0, 0, 0) (- 10 * 10 ^ 8, 0 * 10 ^ 8, 0 * 10 ^ 8) (0, 0, 1) \<and>
   (\<exists>rows. nl_individual_calibration_set 10 1 = Inr rows \<and>
      ((3 * (10 * tanh (- 10 / 15) * 10 ^ 8) / (4 * sqrt 2 * 10 ^ 7), 0,
        10 * tanh (- 10 / 15) * 10 ^ 8 / (4 * sqrt 2 * 10 ^ 7)), (- 10, 0, 0)) \<in> set rows) \<and>
   (\<exists>rows g'. full_calibration_set 10 1 1 (0 ## sconst (1 / 2)) = Inr (rows, g') \<and>
      ((3 * (10 * tanh (- 10 / 15) * 10 ^ 8) / (4 * sqrt 2 * 10 ^ 7), 0,
        10 * tanh (- 10 / 15) * 10 ^ 8 / (4 * sqrt 2 * 10 ^ 7)), (- 10, 0, 0)) \<in> set rows) \<and>
   (\<exists>rows g'. val_set 10 1 (0 ## sconst (1 / 2)) = Inr (rows, g') \<and>
      ((3 * (10 * tanh (- 10 / 15) * 10 ^ 8) / (4 * sqrt 2 * 10 ^ 7), 0,
        10 * tanh (- 10 / 15) * 10 ^ 8 / (4 * sqrt 2 * 10 ^ 7)), (- 10, 0, 0)) \<in> set rows) \<and>
   (3 * (10 * tanh (- 10 / 15) * 10 ^ 8) / (4 * sqrt 2 * 10 ^ 7), 0,
    10 * tanh (- 10 / 15) * 10 ^ 8 / (4 * sqrt 2 * 10 ^ 7)) =
      total_field (0, 0, 0)
        (10 * tanh (- 10 / 15) * 10 ^ 8, 10 * tanh (0 / 15) * 10 ^ 8, 10 * tanh (0 / 15) * 10 ^ 8)
        (0, 0, 1)"
proof -
  let ?Vs = "[(- 10, 0, 0), (0, - 10, 0), (0, 0, - 10)] :: vec3 list"
  let ?g = "0 ## sconst (1 / 2) :: rng"
  let ?B1 = "(- 75 / sqrt 2, 0, - 25 / sqrt 2) :: vec3"
  let ?B2 = "(3 * (10 * tanh (- 10 / 15) * 10 ^ 8) / (4 * sqrt 2 * 10 ^ 7), 0,
              10 * tanh (- 10 / 15) * 10 ^ 8 / (4 * sqrt 2 * 10 ^ 7)) :: vec3"
  have Vs: "V_ind 10 1 = Inr ?Vs"
    using V_ind_single [of 10] by simp
  have ml: "moment_lin (- 10, 0, 0) = (- 1000000000, 0, 0)"
    by (simp add: moment_lin_def m_def)
  have f1: "total_field r0 (moment_lin (- 10, 0, 0)) A = ?B1"
    unfolding ml by (simp add: total_field_pole1 del: total_field.simps)
  have mn: "moment_nl 10 (- 10, 0, 0) = (10 * tanh (- 10 / 15) * 10 ^ 8, 0, 0)"
    by (simp add: moment_nl_coords)
  have f2: "total_field r0 (moment_nl 10 (- 10, 0, 0)) A = ?B2"
    unfolding mn by (rule total_field_pole1)
  have rows1: "individual_calibration_set 10 1 = Inr (zip (B_lin ?Vs) ?Vs)"
    and rows2: "nl_individual_calibration_set 10 1 = Inr (zip (B_nl 10 ?Vs) ?Vs)"
    using dataset_rows [OF Vs] by simp_all
  have mem1: "(?B1, (- 10, 0, 0)) \<in> set (zip (B_lin ?Vs) ?Vs)"
    by (simp add: B_lin_def f1 del: total_field.simps)
  have mem2: "(?B2, (- 10, 0, 0)) \<in> set (zip (B_nl 10 ?Vs) ?Vs)"
    by (simp add: B_nl_def f2 del: total_field.simps)
  have rows3: "full_calibration_set 10 1 1 ?g =
      Inr (zip (B_nl 10 (?Vs @ [(- 10, 0, 0)])) (?Vs @ [(- 10, 0, 0)]), sdrop 3 ?g)"
    by (simp add: full_calibration_set_def Vs random_uniform_single concatenate_lists_def
        concatenate_axis1_def B_nl_def del: total_field.simps)
  have mem3: "(?B2, (- 10, 0, 0)) \<in> set (zip (B_nl 10 (?Vs @ [(- 10, 0, 0)])) (?Vs @ [(- 10, 0, 0)]))"
    by (simp add: B_nl_def f2 del: total_field.simps)
  have rows4: "val_set 10 1 ?g = Inr (zip (B_nl 10 [(- 10, 0, 0)]) [(- 10, 0, 0)], sdrop 3 ?g)"
    by (simp add: val_set_def random_uniform_single concatenate_axis1_def B_nl_def
        del: total_field.simps)
  have mem4: "(?B2, (- 10, 0, 0)) \<in> set (zip (B_nl 10 [(- 10, 0, 0)]) [(- 10, 0, 0)])"
    by (simp add: B_nl_def f2 del: total_field.simps)
  have c1: "?B1 = total_field (0, 0, 0) (- 10 * 10 ^ 8, 0 * 10 ^ 8, 0 * 10 ^ 8) (0, 0, 1)"
    using field_sample_invariant [where V_max = 10 and N = 1 and rows = "zip (B_lin ?Vs) ?Vs"
        and B = ?B1 and ?v1.0 = "- 10" and ?v2.0 = 0 and ?v3.0 = 0] rows1 mem1
    by blast
  have c2: "?B2 = total_field (0, 0, 0)
        (10 * tanh (- 10 / 15) * 10 ^ 8, 10 * tanh (0 / 15) * 10 ^ 8, 10 * tanh (0 / 15) * 10 ^ 8)
        (0, 0, 1)"
    using field_sample_invariant [where V_max = 10 and N = 1 and rows = "zip (B_nl 10 ?Vs) ?Vs"
        and B = ?B2 and ?v1.0 = "- 10" and ?v2.0 = 0 and ?v3.0 = 0] rows2 mem2
    by blast
  have c3: "?B2 = total_field (0, 0, 0)
        (10 * tanh (- 10 / 15) * 10 ^ 8, 10 * tanh (0 / 15) * 10 ^ 8, 10 * tanh (0 / 15) * 10 ^ 8)
        (0, 0, 1)"
    using field_sample_invariant [where V_max = 10 and N = 1 and N_rand = 1 and g = ?g
        and g' = "sdrop 3 ?g"
        and rows = "zip (B_nl 10 (?Vs @ [(- 10, 0, 0)])) (?Vs @ [(- 10, 0, 0)])"
        and B = ?B2 and ?v1.0 = "- 10" and ?v2.0 = 0 and ?v3.0 = 0] rows3 mem3
    by blast
  have c4: "?B2 = total_field (0, 0, 0)
        (10 * tanh (- 10 / 15) * 10 ^ 8, 10 * tanh (0 / 15) * 10 ^ 8, 10 * tanh (0 / 15) * 10 ^ 8)
        (0, 0, 1)"
    using field_sample_invariant [where V_max = 10 and N_rand = 1 and g = ?g
        and g' = "sdrop 3 ?g"
        and rows = "zip (B_nl 10 [(- 10, 0, 0)]) [(- 10, 0, 0)]"
        and B = ?B2 and ?v1.0 = "- 10" and ?v2.0 = 0 and ?v3.0 = 0] rows4 mem4
    by blast
  from rows1 mem1 c1 rows2 mem2 c2 rows3 mem3 c3 rows4 mem4 c4 show ?thesis
    by blast
qed

text \<open>
  C8, as the code has it. Nothing validates the sampling parameters. The voltage range is
  never checked: for every \<open>V_max\<close>, also zero or negative, positive counts give the four
  datasets, of \<open>3N\<close>, \<open>3N\<close>, \<open>3N + N_rand\<close> and \<open>N_rand\<close> rows. A non-positive count fails only
  inside numpy: a negative per-pole count raises ValueError when \<open>np.linspace\<close> builds the
  sweep, before any field loop; a zero per-pole count gives an empty sweep, hence no field,
  and the individual sets fail where the empty field list is joined to the voltages; a
  non-positive random count makes the full and the validation set fail.
\<close>

theorem generation_has_no_validation:
  "(0 < N \<longrightarrow>
      (\<exists>rows. individual_calibration_set V_max N = Inr rows \<and> length rows = 3 * nat N) \<and>
      (\<exists>rows. nl_individual_calibration_set V_max N = Inr rows \<and> length rows = 3 * nat N)) \<and>
   (0 < N \<and> 0 < N_rand \<longrightarrow>
      (\<exists>rows g'. full_calibration_set V_max N N_rand g = Inr (rows, g') \<and>
         length rows = 3 * nat N + nat N_rand)) \<and>
   (0 < N_rand \<longrightarrow>
      (\<exists>rows g'. val_set V_max N_rand g = Inr (rows, g') \<and> length rows = nat N_rand)) \<and>
   (N < 0 \<longrightarrow>
      V_ind V_max N = Inl ValueError \<and>
      individual_calibration_set V_max N = Inl ValueError \<and>
      nl_individual_calibration_set V_max N = Inl ValueError \<and>
      full_calibration_set V_max N N_rand g = Inl ValueError) \<and>
   V_ind V_max 0 = Inr [] \<and>
   individual_calibration_set V_max 0 = Inl AxisError \<and>
   nl_individual_calibration_set V_max 0 = Inl AxisError \<and>
   (N_rand \<le> 0 \<longrightarrow>
      isl (full_calibration_set V_max N N_rand g) \<and> isl (val_set V_max N_rand g))"
proof (intro conjI impI)
  assume "0 < N"
  then show "\<exists>rows. individual_calibration_set V_max N = Inr rows \<and> length rows = 3 * nat N"
    and "\<exists>rows. nl_individual_calibration_set V_max N = Inr rows \<and> length rows = 3 * nat N"
    by (rule individual_ok)+
next
  assume "0 < N \<and> 0 < N_rand"
  then have "0 < N" and "0 < N_rand" by simp_all
  then show "\<exists>rows g'. full_calibration_set V_max N N_rand g = Inr (rows, g') \<and>
         length rows = 3 * nat N + nat N_rand"
    by (rule full_ok)
next
  assume "0 < N_rand"
  then show "\<exists>rows g'. val_set V_max N_rand g = Inr (rows, g') \<and> length rows = nat N_rand"
    by (rule val_ok)
next
  assume "N < 0"
  then show "V_ind V_max N = Inl ValueError"
    and "individual_calibration_set V_max N = Inl ValueError"
    and "nl_individual_calibration_set V_max N = Inl ValueError"
    and "full_calibration_set V_max N N_rand g = Inl ValueError"
    by (simp_all add: V_ind_negative individual_negative)
next
  show "V_ind V_max 0 = Inr []"
    by (rule V_ind_zero)
  show "individual_calibration_set V_max 0 = Inl AxisError"
    and "nl_individual_calibration_set V_max 0 = Inl AxisError"
    by (rule individual_zero)+
next
  assume "N_rand \<le> 0"
  then show "isl (full_calibration_set V_max N N_rand g)" and "isl (val_set V_max N_rand g)"
    by (rule random_nonpositive_fails)+
qed

theorem generation_has_no_validation_witness:
  "(0::int) < 1 \<and>
   (\<exists>rows. individual_calibration_set (- 10) 1 = Inr rows \<and> length rows = 3) \<and>
   (\<exists>rows. nl_individual_calibration_set (- 10) 1 = Inr rows \<and> length rows = 3) \<and>
   (\<exists>rows g'. full_calibration_set 0 1 1 (sconst 0) = Inr (rows, g') \<and> length rows = 4) \<and>
   (\<exists>rows g'. val_set 0 1 (sconst 0) = Inr (rows, g') \<and> length rows = 1) \<and>
   (- 1::int) < 0 \<and>
   V_ind 10 (- 1) = Inl ValueError \<and>
   individual_calibration_set 10 (- 1) = Inl ValueError \<and>
   (0::int) \<le> 0 \<and>
   isl (full_calibration_set 10 1 0 (sconst 0)) \<and> isl (val_set 10 0 (sconst 0))"
  using generation_has_no_validation [of 1 "- 10" 1 "sconst 0"]
    generation_has_no_validation [of 1 0 1 "sconst 0"]
    generation_has_no_validation [of "- 1" 10 1 "sconst 0"]
    generation_has_no_validation [of 1 10 0 "sconst 0"]
  by simp

text \<open>
  C8 as stated fails for \<open>V_max \<le> 0\<close>: at \<open>V_max = 0\<close> with one sample per pole the linear
  individual set is generated (three rows of zeros), and at \<open>V_max = -10\<close> with 128 samples
  per pole it is generated as well.
\<close>

theorem nonpositive_V_max_is_accepted:
  "individual_calibration_set 0 1 =
     Inr [((0, 0, 0), (0, 0, 0)), ((0, 0, 0), (0, 0, 0)), ((0, 0, 0), (0, 0, 0))] \<and>
   \<not> isl (individual_calibration_set (- 10) 128)"
proof
  have Vs: "V_ind 0 1 = Inr [(0, 0, 0), (0, 0, 0), (0, 0, 0)]"
    using V_ind_closed [of 1 0] by simp
  have z: "total_field r0 (moment_lin (0, 0, 0)) A = (0, 0, 0)"
    by (simp add: moment_lin_def Let_def dipole_field_zero_moment)
  show "individual_calibration_set 0 1 =
     Inr [((0, 0, 0), (0, 0, 0)), ((0, 0, 0), (0, 0, 0)), ((0, 0, 0), (0, 0, 0))]"
    using dataset_rows [OF Vs] by (simp add: B_lin_def z del: total_field.simps)
  show "\<not> isl (individual_calibration_set (- 10) 128)"
    using individual_ok(1) [of 128 "- 10"] by auto
qed

text \<open>
  C9, as the code has it. The per-pole sweep does not read the random generator: the first
  \<open>3N\<close> voltage rows of the full set are \<open>V_ind\<close>, a function of \<open>V_max\<close> and \<open>N\<close> alone. The
  random sets take no seed; they are determined by the configuration together with the
  draws of numpy's global generator: two runs whose generators agree on the first
  \<open>3 * N_rand\<close> draws have the same random voltages, the same full set and the same
  validation set.
\<close>

theorem runs_determined_by_draws:
  "(full_calibration_set V_max N N_rand g = Inr (rows, g') \<longrightarrow>
      V_ind V_max N = Inr (map snd (take (3 * nat N) rows))) \<and>
   (stake (3 * nat N_rand) g = stake (3 * nat N_rand) h \<longrightarrow>
      map_sum id fst (random_uniform (- V_max) V_max N_rand g) =
        map_sum id fst (random_uniform (- V_max) V_max N_rand h) \<and>
      map_sum id fst (full_calibration_set V_max N N_rand g) =
        map_sum id fst (full_calibration_set V_max N N_rand h) \<and>
      map_sum id fst (val_set V_max N_rand g) = map_sum id fst (val_set V_max N_rand h))"
proof (intro conjI impI)
  assume "full_calibration_set V_max N N_rand g = Inr (rows, g')"
  then show "V_ind V_max N = Inr (map snd (take (3 * nat N) rows))"
    by (rule full_sweep_part)
next
  assume "stake (3 * nat N_rand) g = stake (3 * nat N_rand) h"
  then show d: "map_sum id fst (random_uniform (- V_max) V_max N_rand g) =
        map_sum id fst (random_uniform (- V_max) V_max N_rand h)"
    by (rule random_uniform_draws)
  show "map_sum id fst (full_calibration_set V_max N N_rand g) =
        map_sum id fst (full_calibration_set V_max N N_rand h)"
    by (simp only: full_rows_of_draws d)
  show "map_sum id fst (val_set V_max N_rand g) = map_sum id fst (val_set V_max N_rand h)"
    by (simp only: val_rows_of_draws d)
qed

theorem runs_determined_by_draws_witness:
  "(\<exists>rows g'. full_calibration_set 10 1 1 (0 ## sconst (1 / 2)) = Inr (rows, g') \<and>
      V_ind 10 1 = Inr (map snd (take 3 rows))) \<and>
   stake 3 (sconst (1 / 2)) = stake 3 (1 / 2 ## 1 / 2 ## 1 / 2 ## sconst (0::real)) \<and>
   map_sum id fst (random_uniform (- 10) 10 1 (sconst (1 / 2))) =
     map_sum id fst (random_uniform (- 10) 10 1 (1 / 2 ## 1 / 2 ## 1 / 2 ## sconst 0)) \<and>
   map_sum id fst (full_calibration_set 10 1 1 (sconst (1 / 2))) =
     map_sum id fst (full_calibration_set 10 1 1 (1 / 2 ## 1 / 2 ## 1 / 2 ## sconst 0)) \<and>
   map_sum id fst (val_set 10 1 (sconst (1 / 2))) =
     map_sum id fst (val_set 10 1 (1 / 2 ## 1 / 2 ## 1 / 2 ## sconst 0))"
proof -
  have s: "stake 3 (sconst (1 / 2)) = stake 3 (1 / 2 ## 1 / 2 ## 1 / 2 ## sconst (0::real))"
    by (simp add: numeral_3_eq_3)
  have "V_ind 10 1 = Inr (map snd (take 3
          (zip (B_nl 10 [(- 10, 0, 0), (0, - 10, 0), (0, 0, - 10), (- 10, 0, 0)])
               [(- 10, 0, 0), (0, - 10, 0), (0, 0, - 10), (- 10, 0, 0)])))"
    using runs_determined_by_draws [where V_max = 10 and N = 1 and N_rand = 1
        and g = "0 ## sconst (1 / 2)" and g' = "sdrop 3 (0 ## sconst (1 / 2))"
        and rows = "zip (B_nl 10 [(- 10, 0, 0), (0, - 10, 0), (0, 0, - 10), (- 10, 0, 0)])
               [(- 10, 0, 0), (0, - 10, 0), (0, 0, - 10), (- 10, 0, 0)]"]
      full_calibration_set_single by simp
  with full_calibration_set_single have a: "\<exists>rows g'.
      full_calibration_set 10 1 1 (0 ## sconst (1 / 2)) = Inr (rows, g') \<and>
      V_ind 10 1 = Inr (map snd (take 3 rows))"
    by blast
  from a s runs_determined_by_draws [where V_max = 10 and N = 1 and N_rand = 1
        and g = "sconst (1 / 2)" and h = "1 / 2 ## 1 / 2 ## 1 / 2 ## sconst 0"]
  show ?thesis by simp
qed

text \<open>
  C9 as stated fails: the configuration holds no seed, and two runs with the same
  configuration (\<open>V_max = 10\<close>, one random sample) whose generators deliver different draws
  have different voltage sequences and different validation sets.
\<close>

theorem unseeded_runs_differ:
  "map_sum id fst (random_uniform (- 10) 10 1 (sconst 0)) = Inr [(- 10, - 10, - 10)] \<and>
   map_sum id fst (random_uniform (- 10) 10 1 (sconst (1 / 2))) = Inr [(0, 0, 0)] \<and>
   map_sum id fst (val_set 10 1 (sconst 0)) \<noteq> map_sum id fst (val_set 10 1 (sconst (1 / 2)))"
proof (intro conjI)
  show a: "map_sum id fst (random_uniform (- 10) 10 1 (sconst 0)) = Inr [(- 10, - 10, - 10)]"
    by (simp add: random_uniform_def)
  show b: "map_sum id fst (random_uniform (- 10) 10 1 (sconst (1 / 2))) = Inr [(0, 0, 0)]"
    by (simp add: random_uniform_def)
  show "map_sum id fst (val_set 10 1 (sconst 0)) \<noteq> map_sum id fst (val_set 10 1 (sconst (1 / 2)))"
    unfolding val_rows_of_draws a b
    by (simp add: concatenate_axis1_def B_nl_def del: total_field.simps)
qed

end
